theory Spec2Isabelle
  imports Complex_Main "HOL-Library.Char_ord" "HOL-Library.List_Lexorder"
    "HOL-Library.Product_Lexorder" "HOL-Library.Sublist"
begin

section \<open>Tables\<close>

text \<open>
  A row of the dataset read by \<^verbatim>\<open>Home.py\<close>, with the columns of
  \<^verbatim>\<open>REQUIRED_COLUMNS\<close>. A DataFrame is the list of its rows, in row order.
  Salaries are exact rationals; strings compare as Python's do (lexicographically, by
  character code).
\<close>

record row =
  Year :: int
  Experience_Level :: string
  Employment_Type :: string
  Company_Size :: string
  Salary_In_Usd :: rat
  Job_Title :: string
  Remote_Ratio :: string
  Employee_Residence_Iso3 :: string

text \<open>
  A row of the dataset read by \<^verbatim>\<open>pages/0_Main_Courts.py\<close> (the columns of
  \<^verbatim>\<open>COLUNAS\<close>); \<^verbatim>\<open>pages/3_Role_Comparison.py\<close> reads the same file.
\<close>

record registro =
  ano :: int
  senioridade :: string
  contrato :: string
  tamanho_empresa :: string
  usd :: rat
  cargo :: string
  remoto :: string
  residencia_iso3 :: string

section \<open>The pandas operations the pages use\<close>

text \<open>\<^verbatim>\<open>Series.isin(values)\<close>: one boolean per element of the column.\<close>

definition isin :: "'a list \<Rightarrow> 'a list \<Rightarrow> bool list" where
  "isin col vals = map (\<lambda>v. v \<in> set vals) col"

text \<open>\<^verbatim>\<open>m1 & m2\<close> on two boolean Series of one index: elementwise conjunction.\<close>

definition mask_and :: "bool list \<Rightarrow> bool list \<Rightarrow> bool list" where
  "mask_and m1 m2 = map (\<lambda>(a, b). a \<and> b) (zip m1 m2)"

text \<open>\<^verbatim>\<open>df[mask]\<close>: the rows whose mask entry is True, in row order.\<close>

definition getitem_mask :: "'a list \<Rightarrow> bool list \<Rightarrow> 'a list" where
  "getitem_mask df m = map fst (filter snd (zip df m))"

section \<open>Filtering\<close>

text \<open>\<^verbatim>\<open>filter_data\<close> of \<^verbatim>\<open>Home.py\<close>.\<close>

definition filter_data :: "row list \<Rightarrow> int list \<Rightarrow> string list \<Rightarrow> string list \<Rightarrow> string list \<Rightarrow> row list" where
  "filter_data df years experience_levels employment_types company_sizes =
     getitem_mask df
       (mask_and
         (mask_and
           (mask_and (isin (map Year df) years)
                     (isin (map Experience_Level df) experience_levels))
           (isin (map Employment_Type df) employment_types))
         (isin (map Company_Size df) company_sizes))"

text \<open>\<^verbatim>\<open>filtrar\<close> of \<^verbatim>\<open>pages/0_Main_Courts.py\<close>.\<close>

definition filtrar :: "registro list \<Rightarrow> int list \<Rightarrow> string list \<Rightarrow> string list \<Rightarrow> string list \<Rightarrow> registro list" where
  "filtrar df anos senioridades contratos tamanhos =
     getitem_mask df
       (mask_and
         (mask_and
           (mask_and (isin (map ano df) anos)
                     (isin (map senioridade df) senioridades))
           (isin (map contrato df) contratos))
         (isin (map tamanho_empresa df) tamanhos))"

section \<open>Numbers and errors\<close>

text \<open>
  The exceptions the modelled code can raise, and the ways a page can end: it renders
  its results, it reports a message and calls \<^verbatim>\<open>st.stop()\<close>, or an exception
  escapes.
\<close>

datatype error = IndexError | KeyError | ValueError | TypeError

datatype 'a outcome = Rendered 'a | Stopped string | Raised error

text \<open>
  A float64 result: a finite number, kept exact as a rational, or one of the three
  IEEE values that are not numbers of the dataset. Finite arithmetic is exact in the
  model; rounding is not modelled.
\<close>

datatype float64 = Fin rat | PInf | NInf | NaN

text \<open>
  \<^verbatim>\<open>a / b\<close> on floats: division by zero raises nothing, it gives inf, -inf or NaN.
  The numbers of a table are rationals, so a zero is the float \<open>0.0\<close>: a table holding
  the float \<open>-0.0\<close> is outside the tables described here, and against such a divisor the
  infinity has the other sign. No statement below about all tables depends on the sign of
  an infinity.
\<close>

definition fdiv :: "rat \<Rightarrow> rat \<Rightarrow> float64" where
  "fdiv a b = (if b \<noteq> 0 then Fin (a / b)
               else if 0 < a then PInf else if a < 0 then NInf else NaN)"

text \<open>\<^verbatim>\<open>x - 1\<close> and \<open>x * 100\<close> on a float.\<close>

fun minus1 :: "float64 \<Rightarrow> float64" where
  "minus1 (Fin a) = Fin (a - 1)"
| "minus1 PInf = PInf"
| "minus1 NInf = NInf"
| "minus1 NaN = NaN"

fun times100 :: "float64 \<Rightarrow> float64" where
  "times100 (Fin a) = Fin (a * 100)"
| "times100 PInf = PInf"
| "times100 NInf = NInf"
| "times100 NaN = NaN"

fun fadd :: "float64 \<Rightarrow> float64 \<Rightarrow> float64" where
  "fadd (Fin a) (Fin b) = Fin (a + b)"
| "fadd NaN _ = NaN"
| "fadd _ NaN = NaN"
| "fadd PInf NInf = NaN"
| "fadd NInf PInf = NaN"
| "fadd PInf _ = PInf"
| "fadd _ PInf = PInf"
| "fadd NInf _ = NInf"
| "fadd _ NInf = NInf"

text \<open>A float divided by a positive count.\<close>

fun fdiv_count :: "float64 \<Rightarrow> nat \<Rightarrow> float64" where
  "fdiv_count (Fin a) n = Fin (a / of_nat n)"
| "fdiv_count PInf n = PInf"
| "fdiv_count NInf n = NInf"
| "fdiv_count NaN n = NaN"

text \<open>\<^verbatim>\<open>salary <= limit\<close>, a number of the table against a float: False against NaN.\<close>

fun le_float :: "rat \<Rightarrow> float64 \<Rightarrow> bool" where
  "le_float x (Fin y) = (x \<le> y)"
| "le_float x PInf = True"
| "le_float x NInf = False"
| "le_float x NaN = False"

section \<open>Series reductions\<close>

text \<open>The mean and the median of a non-empty list of numbers.\<close>

definition avg :: "rat list \<Rightarrow> rat" where
  "avg xs = sum_list xs / of_nat (length xs)"

definition med :: "rat list \<Rightarrow> rat" where
  "med xs = (let s = sort xs; n = length s
             in if odd n then s ! (n div 2)
                else (s ! (n div 2 - 1) + s ! (n div 2)) / 2)"

text \<open>
  \<^verbatim>\<open>Series.mean()\<close>, \<^verbatim>\<open>Series.median()\<close> and \<^verbatim>\<open>Series.max()\<close> on a column of
  numbers: NaN on the empty column, no exception.
\<close>

definition mean :: "rat list \<Rightarrow> float64" where
  "mean xs = (if xs = [] then NaN else Fin (avg xs))"

definition median :: "rat list \<Rightarrow> float64" where
  "median xs = (if xs = [] then NaN else Fin (med xs))"

definition series_max :: "rat list \<Rightarrow> float64" where
  "series_max xs = (case xs of [] \<Rightarrow> NaN | x # r \<Rightarrow> Fin (fold max r x))"

text \<open>
  \<^verbatim>\<open>Series.mean()\<close> on a column of floats (\<open>skipna=True\<close>): NaN entries are dropped, the
  rest are summed and divided by their count; NaN when nothing is left.
\<close>

definition fmean :: "float64 list \<Rightarrow> float64" where
  "fmean xs = (let ys = filter (\<lambda>v. v \<noteq> NaN) xs
               in if ys = [] then NaN else fdiv_count (foldr fadd ys (Fin 0)) (length ys))"

text \<open>
  \<^verbatim>\<open>Series.mode()\<close>: the values of the highest count, sorted ascending.
  \<^verbatim>\<open>Series.nunique()\<close>: the number of distinct values.
\<close>

definition mode :: "'a::linorder list \<Rightarrow> 'a list" where
  "mode xs = (let top = fold max (map (count_list xs) xs) 0
              in sort (filter (\<lambda>v. count_list xs v = top) (remdups xs)))"

definition nunique :: "'a list \<Rightarrow> nat" where
  "nunique xs = length (remdups xs)"

text \<open>\<^verbatim>\<open>s.iloc[0]\<close> and \<^verbatim>\<open>a.values[0]\<close>: IndexError on an empty Series.\<close>

definition iloc0 :: "'a list \<Rightarrow> error + 'a" where
  "iloc0 xs = (case xs of [] \<Rightarrow> Inl IndexError | x # _ \<Rightarrow> Inr x)"

text \<open>
  \<^verbatim>\<open>df.loc[i, col]\<close> on a frame with the default index \<open>0..n-1\<close>: KeyError when the label
  \<open>i\<close> is not in the index.
\<close>

definition loc :: "'a list \<Rightarrow> nat \<Rightarrow> error + 'a" where
  "loc xs i = (if i < length xs then Inr (xs ! i) else Inl KeyError)"

text \<open>
  \<^verbatim>\<open>Series.quantile(q)\<close> with the default linear interpolation: on the sorted values,
  the position \<open>(n - 1) * q\<close> is split into its floor and its fraction, and the result
  lies that fraction of the way from the value at the floor to the next one (the last
  value has no next one and stands for it). ValueError for \<open>q\<close> outside \<open>[0, 1]\<close>, NaN on
  the empty column.
\<close>

definition quantile :: "rat list \<Rightarrow> rat \<Rightarrow> error + float64" where
  "quantile xs q =
     (if q < 0 \<or> 1 < q then Inl ValueError
      else if xs = [] then Inr NaN
      else let s = sort xs; n = length s;
               h = of_nat (n - 1) * q;
               lo = nat \<lfloor>h\<rfloor>;
               hi = min (lo + 1) (n - 1)
           in Inr (Fin (s ! lo + (s ! hi - s ! lo) * (h - of_nat lo))))"

text \<open>
  \<^verbatim>\<open>Series.pct_change()\<close>: NaN first, then each value divided by the one before it,
  minus one.
\<close>

definition pct_change :: "rat list \<Rightarrow> float64 list" where
  "pct_change xs =
     (case xs of [] \<Rightarrow> []
      | _ # r \<Rightarrow> NaN # map (\<lambda>(prev, cur). minus1 (fdiv cur prev)) (zip xs r))"

section \<open>Grouping and ranking\<close>

text \<open>
  \<^verbatim>\<open>df.groupby(key)[val].mean()\<close>: one entry per distinct key, in ascending key order
  (\<open>sort=True\<close> is the default of \<open>groupby\<close>), with the mean of the group's values. Every
  group has at least one row.
\<close>

definition groupby_mean :: "('r \<Rightarrow> 'k::linorder) \<Rightarrow> ('r \<Rightarrow> rat) \<Rightarrow> 'r list \<Rightarrow> ('k \<times> rat) list" where
  "groupby_mean key val df =
     map (\<lambda>k. (k, avg (map val (filter (\<lambda>r. key r = k) df))))
         (sort (remdups (map key df)))"

text \<open>\<^verbatim>\<open>df.groupby(key)[val].agg(mean, median).reset_index()\<close>: key, mean, median.\<close>

definition groupby_agg :: "('r \<Rightarrow> 'k::linorder) \<Rightarrow> ('r \<Rightarrow> rat) \<Rightarrow> 'r list \<Rightarrow> ('k \<times> rat \<times> rat) list" where
  "groupby_agg key val df =
     map (\<lambda>k. let g = map val (filter (\<lambda>r. key r = k) df) in (k, avg g, med g))
         (sort (remdups (map key df)))"

text \<open>
  \<^verbatim>\<open>nlargest(n, col)\<close> (\<open>keep='first'\<close>): the first \<open>n\<close> entries of the table sorted by
  descending value with a stable sort, so that equal values keep the order they have in
  the table. \<^verbatim>\<open>sort_values(col)\<close>: ascending by value; the model keeps equal values
  in table order, which pandas' default sort does not promise, and no statement about
  the source below depends on the order of equal values in its result.
\<close>

definition nlargest :: "nat \<Rightarrow> ('k \<times> rat) list \<Rightarrow> ('k \<times> rat) list" where
  "nlargest n t = take n (sort_key (\<lambda>(k, m). - m) t)"

definition sort_values :: "('k \<times> rat) list \<Rightarrow> ('k \<times> rat) list" where
  "sort_values t = sort_key snd t"

section \<open>The blocks of Home.py\<close>

text \<open>The KPI block (lines 102 to 111).\<close>

record kpis =
  average_salary :: float64
  median_salary :: float64
  maximum_salary :: float64
  total_records :: nat
  most_frequent_job_title :: string

definition general_metrics :: "row list \<Rightarrow> error + kpis" where
  "general_metrics df_filtered =
     (if df_filtered = [] then
        Inr \<lparr>average_salary = Fin 0, median_salary = Fin 0, maximum_salary = Fin 0,
             total_records = 0, most_frequent_job_title = ''-''\<rparr>
      else
        case iloc0 (mode (map Job_Title df_filtered)) of
          Inl e \<Rightarrow> Inl e
        | Inr t \<Rightarrow>
            Inr \<lparr>average_salary = mean (map Salary_In_Usd df_filtered),
                 median_salary = median (map Salary_In_Usd df_filtered),
                 maximum_salary = series_max (map Salary_In_Usd df_filtered),
                 total_records = length df_filtered,
                 most_frequent_job_title = t\<rparr>)"

text \<open>
  The automatic insight (lines 123 to 129): \<open>None\<close> when the guard fails and no growth is
  computed.
\<close>

definition growth :: "row list \<Rightarrow> float64 option" where
  "growth df_filtered =
     (if df_filtered \<noteq> [] \<and> 1 < nunique (map Year df_filtered) then
        Some (times100 (fmean (pct_change
          (map snd (groupby_mean Year Salary_In_Usd df_filtered)))))
      else None)"

text \<open>
  What the automatic insight shows (lines 131 to 134): \<^verbatim>\<open>st.success\<close> with the growth
  when \<open>growth > 0\<close>, else \<^verbatim>\<open>st.warning\<close> with it; nothing (\<open>None\<close>) when no growth was
  computed. A comparison with NaN is False.
\<close>

datatype notice = Success float64 | Warning float64

fun gt_zero :: "float64 \<Rightarrow> bool" where
  "gt_zero (Fin x) = (0 < x)"
| "gt_zero PInf = True"
| "gt_zero NInf = False"
| "gt_zero NaN = False"

definition insight :: "row list \<Rightarrow> notice option" where
  "insight df_filtered =
     (case growth df_filtered of
        None \<Rightarrow> None
      | Some g \<Rightarrow> Some (if gt_zero g then Success g else Warning g))"

text \<open>
  The outlier removal (lines 141 to 145), with the quantile level as a parameter, and
  at the level 0.99 of the source.
\<close>

definition trim_at :: "rat \<Rightarrow> row list \<Rightarrow> error + row list" where
  "trim_at q df_filtered =
     (if df_filtered \<noteq> [] then
        case quantile (map Salary_In_Usd df_filtered) q of
          Inl e \<Rightarrow> Inl e
        | Inr limit \<Rightarrow>
            Inr (getitem_mask df_filtered
                   (map (\<lambda>x. le_float x limit) (map Salary_In_Usd df_filtered)))
      else Inr df_filtered)"

definition df_vis :: "row list \<Rightarrow> error + row list" where
  "df_vis df_filtered = trim_at (99 / 100) df_filtered"

text \<open>The top job titles (lines 155 to 161): \<open>None\<close> when the chart is skipped.\<close>

definition top_job_titles :: "row list \<Rightarrow> (string \<times> rat) list option" where
  "top_job_titles vis =
     (if vis \<noteq> [] then
        Some (sort_values (nlargest 10 (groupby_mean Job_Title Salary_In_Usd vis)))
      else None)"

text \<open>The Data Scientist map (lines 207 to 215): \<open>None\<close> when the info box is shown.\<close>

definition average_country_salary :: "row list \<Rightarrow> (string \<times> rat) list option" where
  "average_country_salary vis =
     (let df_ds = getitem_mask vis (map (\<lambda>t. t = ''Data Scientist'') (map Job_Title vis))
      in if df_ds = [] then None
         else Some (groupby_mean Employee_Residence_Iso3 Salary_In_Usd df_ds))"

text \<open>The job title comparison (lines 232 to 246): \<open>None\<close> when the block is skipped.\<close>

definition comparison :: "row list \<Rightarrow> string \<Rightarrow> string \<Rightarrow> (string \<times> rat \<times> rat) list option" where
  "comparison df_filtered job_title_a job_title_b =
     (if df_filtered \<noteq> [] then
        Some (groupby_agg Job_Title Salary_In_Usd
               (getitem_mask df_filtered
                  (isin (map Job_Title df_filtered) [job_title_a, job_title_b])))
      else None)"

text \<open>
  The page from the filter on, as the script runs it: each block reads the variables
  assigned before it and assigns its own. The variables of the script are the fields of
  the environment; a block that is skipped leaves \<open>None\<close>.
\<close>

record home_env =
  env_df_filtered :: "row list"
  env_kpis :: kpis
  env_growth :: "float64 option"
  env_df_vis :: "row list"
  env_top_job_titles :: "(string \<times> rat) list option"
  env_average_country_salary :: "(string \<times> rat) list option"
  env_comparison :: "(string \<times> rat \<times> rat) list option"

definition kpi_block :: "row list \<Rightarrow> error + home_env" where
  "kpi_block df_filtered =
     (case general_metrics df_filtered of
        Inl e \<Rightarrow> Inl e
      | Inr k \<Rightarrow> Inr \<lparr>env_df_filtered = df_filtered, env_kpis = k, env_growth = None,
                      env_df_vis = [], env_top_job_titles = None,
                      env_average_country_salary = None, env_comparison = None\<rparr>)"

definition insight_block :: "home_env \<Rightarrow> home_env" where
  "insight_block e = e\<lparr>env_growth := growth (env_df_filtered e)\<rparr>"

definition outlier_block :: "home_env \<Rightarrow> error + home_env" where
  "outlier_block e =
     (case df_vis (env_df_filtered e) of
        Inl x \<Rightarrow> Inl x
      | Inr v \<Rightarrow> Inr (e\<lparr>env_df_vis := v\<rparr>))"

definition charts_block :: "home_env \<Rightarrow> home_env" where
  "charts_block e =
     e\<lparr>env_top_job_titles := top_job_titles (env_df_vis e),
       env_average_country_salary := average_country_salary (env_df_vis e)\<rparr>"

definition comparison_block :: "string \<Rightarrow> string \<Rightarrow> home_env \<Rightarrow> home_env" where
  "comparison_block job_title_a job_title_b e =
     e\<lparr>env_comparison := comparison (env_df_filtered e) job_title_a job_title_b\<rparr>"

definition home :: "row list \<Rightarrow> int list \<Rightarrow> string list \<Rightarrow> string list \<Rightarrow> string list
    \<Rightarrow> string \<Rightarrow> string \<Rightarrow> error + home_env" where
  "home df years experience_levels employment_types company_sizes job_title_a job_title_b =
     (case kpi_block (filter_data df years experience_levels employment_types company_sizes) of
        Inl x \<Rightarrow> Inl x
      | Inr e1 \<Rightarrow>
          (case outlier_block (insight_block e1) of
             Inl x \<Rightarrow> Inl x
           | Inr e2 \<Rightarrow> Inr (comparison_block job_title_a job_title_b (charts_block e2))))"

section \<open>The blocks of pages/0_Main_Courts.py\<close>

text \<open>
  The currency of the sidebar and the column \<^verbatim>\<open>salario\<close> the page adds to the filtered
  table (line 77): the salary in USD, or converted at the fixed rate.
\<close>

datatype moeda = USD | EUR

definition TAXA_EUR :: rat where
  "TAXA_EUR = 92 / 100"

definition salario :: "moeda \<Rightarrow> registro \<Rightarrow> rat" where
  "salario m r = (if m = USD then usd r else usd r * TAXA_EUR)"

text \<open>
  The relative difference of the comparison (line 193): the rows of the table
  \<^verbatim>\<open>comp\<close> (here \<open>cmp\<close>) are read by position, the second over the first.
\<close>

definition delta :: "(string \<times> rat \<times> rat) list \<Rightarrow> error + float64" where
  "delta cmp =
     (case loc cmp 1 of
        Inl e \<Rightarrow> Inl e
      | Inr (k1, media1, mediana1) \<Rightarrow>
          (case loc cmp 0 of
             Inl e \<Rightarrow> Inl e
           | Inr (k0, media0, mediana0) \<Rightarrow> Inr (times100 (minus1 (fdiv media1 media0)))))"

record main_courts_env =
  salario_medio :: float64
  salario_mediano :: float64
  maximo :: float64
  registros :: nat
  evolucao :: "(int \<times> rat) list"
  top_cargos :: "(string \<times> rat) list"
  heat :: "((string \<times> string) \<times> rat) list"
  comp_cargos :: "(string \<times> rat \<times> rat) list"
  delta_pct :: float64
  ranking :: "(string \<times> rat) list"

text \<open>
  The page from the filtered table on (lines 90 to 206), for the currency and the two job
  titles chosen in the widgets: it stops on an empty table, before any indicator.
\<close>

definition main_courts :: "registro list \<Rightarrow> moeda \<Rightarrow> string \<Rightarrow> string \<Rightarrow> main_courts_env outcome" where
  "main_courts df_f m c1 c2 =
     (if df_f = [] then Stopped ''Nenhum dado com os filtros selecionados.''
      else
        let cmp = groupby_agg cargo (salario m)
                    (getitem_mask df_f (isin (map cargo df_f) [c1, c2]))
        in case delta cmp of
             Inl e \<Rightarrow> Raised e
           | Inr d \<Rightarrow>
               Rendered
                 \<lparr>salario_medio = mean (map (salario m) df_f),
                  salario_mediano = median (map (salario m) df_f),
                  maximo = series_max (map (salario m) df_f),
                  registros = length df_f,
                  evolucao = groupby_mean ano (salario m) df_f,
                  top_cargos = sort_values (nlargest 10 (groupby_mean cargo (salario m) df_f)),
                  heat = groupby_mean (\<lambda>r. (senioridade r, tamanho_empresa r)) (salario m) df_f,
                  comp_cargos = cmp,
                  delta_pct = d,
                  ranking = nlargest 10 (groupby_mean residencia_iso3 (salario m) df_f)\<rparr>)"

section \<open>pages/3_Role_Comparison.py\<close>

text \<open>The options of the two select boxes (line 26): the roles of the table, sorted.\<close>

definition roles :: "registro list \<Rightarrow> string list" where
  "roles df = sort (remdups (map cargo df))"

text \<open>
  The extra insight (lines 61 to 65) on the unfiltered table: the two means are looked up
  by role name; \<open>None\<close> when both widgets hold the same role and nothing is computed.
\<close>

definition diff :: "registro list \<Rightarrow> string \<Rightarrow> string \<Rightarrow> error + float64 option" where
  "diff df role_a role_b =
     (let comparison = groupby_agg cargo usd
                         (getitem_mask df (isin (map cargo df) [role_a, role_b]))
      in if role_a \<noteq> role_b then
           case iloc0 (map (\<lambda>(k, mn, md). mn) (filter (\<lambda>(k, mn, md). k = role_a) comparison)) of
             Inl e \<Rightarrow> Inl e
           | Inr avg_a \<Rightarrow>
               (case iloc0 (map (\<lambda>(k, mn, md). mn) (filter (\<lambda>(k, mn, md). k = role_b) comparison)) of
                  Inl e \<Rightarrow> Inl e
                | Inr avg_b \<Rightarrow> Inr (Some (times100 (fdiv (avg_a - avg_b) avg_b))))
         else Inr None)"

section \<open>Loading and validation\<close>

text \<open>
  A file as \<^verbatim>\<open>pd.read_csv\<close> returns it, before anything is known about its columns:
  the column names in file order, each with its cells.
\<close>

datatype cell = Num rat | Str string

type_synonym frame = "(string \<times> cell list) list"

definition columns :: "frame \<Rightarrow> string list" where
  "columns df = map fst df"

text \<open>\<^verbatim>\<open>len(df)\<close>: the number of rows.\<close>

definition len :: "frame \<Rightarrow> nat" where
  "len df = (case df of [] \<Rightarrow> 0 | (c, cells) # _ \<Rightarrow> length cells)"

text \<open>\<^verbatim>\<open>df[name]\<close>: KeyError when the file has no such column.\<close>

definition getitem :: "frame \<Rightarrow> string \<Rightarrow> error + cell list" where
  "getitem df name = (case map_of df name of None \<Rightarrow> Inl KeyError | Some cells \<Rightarrow> Inr cells)"

text \<open>The numbers of a column; a reduction over a column holding text raises TypeError.\<close>

fun numeric :: "cell list \<Rightarrow> error + rat list" where
  "numeric [] = Inr []"
| "numeric (Num x # cells) = (case numeric cells of Inl e \<Rightarrow> Inl e | Inr xs \<Rightarrow> Inr (x # xs))"
| "numeric (Str t # cells) = Inl TypeError"

definition REQUIRED_COLUMNS :: "string list" where
  "REQUIRED_COLUMNS =
     [''Year'', ''Experience_Level'', ''Employment_Type'', ''Company_Size'',
      ''Salary_In_Usd'', ''Job_Title'', ''Remote_Ratio'', ''Employee_Residence_Iso3'']"

definition COLUNAS :: "string list" where
  "COLUNAS =
     [''ano'', ''senioridade'', ''contrato'', ''tamanho_empresa'',
      ''usd'', ''cargo'', ''remoto'', ''residencia_iso3'']"

text \<open>
  The validation of \<^verbatim>\<open>Home.py\<close> (lines 44 to 46) and of \<^verbatim>\<open>pages/0_Main_Courts.py\<close>
  (lines 45 to 47): \<open>rest\<close> is the script below the check, which runs only on a file that
  passes it. The Portuguese message is written without its accent.
\<close>

definition home_validated :: "frame \<Rightarrow> (frame \<Rightarrow> 'a outcome) \<Rightarrow> 'a outcome" where
  "home_validated df rest =
     (if \<not> set REQUIRED_COLUMNS \<subseteq> set (columns df)
      then Stopped ''The dataset does not contain all the necessary columns.''
      else rest df)"

definition main_courts_validated :: "frame \<Rightarrow> (frame \<Rightarrow> 'a outcome) \<Rightarrow> 'a outcome" where
  "main_courts_validated df rest =
     (if \<not> set COLUNAS \<subseteq> set (columns df)
      then Stopped ''Dataset invalido ou incompleto.''
      else rest df)"

text \<open>
  \<^verbatim>\<open>pages/1_Overview.py\<close>, whole: the file is loaded and the three metrics are computed
  from the column \<^verbatim>\<open>usd\<close>, with no check of the columns in between.
\<close>

record overview_metrics =
  ov_average_salary :: float64
  ov_median_salary :: float64
  ov_total_records :: nat

definition overview :: "frame \<Rightarrow> overview_metrics outcome" where
  "overview df =
     (case getitem df ''usd'' of
        Inl e \<Rightarrow> Raised e
      | Inr cells \<Rightarrow>
          (case numeric cells of
             Inl e \<Rightarrow> Raised e
           | Inr xs \<Rightarrow>
               Rendered \<lparr>ov_average_salary = mean xs, ov_median_salary = median xs,
                         ov_total_records = len df\<rparr>))"

section \<open>Example tables\<close>

text \<open>A row of \<^verbatim>\<open>Home.py\<close> with a given year, job title and salary, for the examples.\<close>

definition example_row :: "int \<Rightarrow> string \<Rightarrow> rat \<Rightarrow> row" where
  "example_row y t s =
     \<lparr>Year = y, Experience_Level = ''SE'', Employment_Type = ''FT'', Company_Size = ''M'',
      Salary_In_Usd = s, Job_Title = t, Remote_Ratio = ''0'',
      Employee_Residence_Iso3 = ''USA''\<rparr>"

section \<open>The percentile as the specification words it\<close>

text \<open>
  Following the specification's words (the linear interpolation percentile, the standard
  method): with the values sorted ascending and the rank \<open>h = (n - 1) * p\<close>, the value
  at rank \<open>floor h\<close> plus the fraction \<open>h - floor h\<close> of the gap to the value at rank
  \<open>ceiling h\<close>.
\<close>

definition percentile_linear :: "rat list \<Rightarrow> rat \<Rightarrow> rat" where
  "percentile_linear xs p =
     (let s = sort xs; h = of_nat (length xs - 1) * p
      in s ! nat \<lfloor>h\<rfloor> + (h - of_int \<lfloor>h\<rfloor>) * (s ! nat \<lceil>h\<rceil> - s ! nat \<lfloor>h\<rfloor>))"

section \<open>The growth as the specification words it\<close>

text \<open>
  Following the specification's words: the mean salary of each year, in ascending year
  order, and the arithmetic mean, in percent, of the period-over-period changes
  \<open>(m\<^sub>i\<^sub>+\<^sub>1 - m\<^sub>i) / m\<^sub>i\<close> over consecutive years.
\<close>

definition yearly_means :: "row list \<Rightarrow> rat list" where
  "yearly_means T =
     map (\<lambda>y. avg (map Salary_In_Usd (filter (\<lambda>r. Year r = y) T)))
         (sort (remdups (map Year T)))"

definition average_growth :: "rat list \<Rightarrow> rat" where
  "average_growth ms =
     (\<Sum>i\<leftarrow>[0..<length ms - 1]. (ms ! (i + 1) - ms ! i) / ms ! i * 100)
       / of_nat (length ms - 1)"

section \<open>Selecting the best paid groups\<close>

text \<open>
  What it means for \<open>sel\<close> to be the \<open>n\<close> best paid of the groups: at most \<open>n\<close> of
  them; every selected group has a greater mean than every group left out, or the same
  mean and a smaller key; and all groups when there are no more than \<open>n\<close>.
\<close>

definition top_selection :: "nat \<Rightarrow> ('k::linorder \<times> rat) list \<Rightarrow> ('k \<times> rat) list \<Rightarrow> bool" where
  "top_selection n groups sel \<longleftrightarrow>
     length sel \<le> n
     \<and> set sel \<subseteq> set groups
     \<and> (\<forall>x \<in> set sel. \<forall>y \<in> set groups - set sel.
           snd y < snd x \<or> (snd y = snd x \<and> fst x < fst y))
     \<and> (length groups \<le> n \<longrightarrow> set sel = set groups)"

text \<open>
  Eleven job titles, one row each: nine with salary 2, and \<open>k\<close> and \<open>a\<close> with salary 1,
  \<open>k\<close> in the first row. And a row of the Portuguese dataset for the examples.
\<close>

definition eleven_titles :: "row list" where
  "eleven_titles =
     [example_row 2021 ''k'' 1, example_row 2021 ''a'' 1, example_row 2021 ''b'' 2,
      example_row 2021 ''c'' 2, example_row 2021 ''d'' 2, example_row 2021 ''e'' 2,
      example_row 2021 ''f'' 2, example_row 2021 ''g'' 2, example_row 2021 ''h'' 2,
      example_row 2021 ''i'' 2, example_row 2021 ''j'' 2]"

definition example_registro :: "int \<Rightarrow> string \<Rightarrow> rat \<Rightarrow> registro" where
  "example_registro y c s =
     \<lparr>ano = y, senioridade = ''senior'', contrato = ''integral'', tamanho_empresa = ''media'',
      usd = s, cargo = c, remoto = ''remoto'', residencia_iso3 = ''BRA''\<rparr>"

section \<open>The mean of a group as the specification words it\<close>

text \<open>
  Following the specification's words: \<open>meanA\<close>, the mean of the value column over the
  rows of the table whose group column holds \<open>A\<close>.
\<close>

definition group_mean :: "('r \<Rightarrow> 'k) \<Rightarrow> ('r \<Rightarrow> rat) \<Rightarrow> 'r list \<Rightarrow> 'k \<Rightarrow> rat" where
  "group_mean key val df k = avg (map val (filter (\<lambda>r. key r = k) df))"

section \<open>Properties of filtering\<close>

lemma mask_and_map:
  "mask_and (map p xs) (map q xs) = map (\<lambda>x. p x \<and> q x) xs"
  by (induction xs) (simp_all add: mask_and_def)

lemma isin_map: "isin (map f xs) vals = map (\<lambda>x. f x \<in> set vals) xs"
  by (simp add: isin_def)

lemma getitem_mask_map: "getitem_mask xs (map p xs) = filter p xs"
  by (induction xs) (simp_all add: getitem_mask_def)

lemma filter_data_eq_filter:
  "filter_data df ys es ts cs =
     filter (\<lambda>r. Year r \<in> set ys \<and> Experience_Level r \<in> set es \<and>
                 Employment_Type r \<in> set ts \<and> Company_Size r \<in> set cs) df"
  by (simp add: filter_data_def isin_map mask_and_map getitem_mask_map conj_assoc)

lemma filtrar_eq_filter:
  "filtrar df ys es ts cs =
     filter (\<lambda>r. ano r \<in> set ys \<and> senioridade r \<in> set es \<and>
                 contrato r \<in> set ts \<and> tamanho_empresa r \<in> set cs) df"
  by (simp add: filtrar_def isin_map mask_and_map getitem_mask_map conj_assoc)

text \<open>
  Claim C1. \<^verbatim>\<open>filter_data\<close> returns exactly the rows whose year, experience level,
  employment type and company size each belong to the accepted values of that dimension,
  in the row order of the input (the result is the input list filtered, hence a
  subsequence of it); when the accepted values of any one dimension are empty, the result
  is the empty table.
\<close>

theorem filter_data_exact:
  "filter_data df ys es ts cs =
     filter (\<lambda>r. Year r \<in> set ys \<and> Experience_Level r \<in> set es \<and>
                 Employment_Type r \<in> set ts \<and> Company_Size r \<in> set cs) df
   \<and> subseq (filter_data df ys es ts cs) df
   \<and> filter_data df [] es ts cs = []
   \<and> filter_data df ys [] ts cs = []
   \<and> filter_data df ys es [] cs = []
   \<and> filter_data df ys es ts [] = []"
  by (simp add: filter_data_eq_filter)

text \<open>
  Claim C9. Filtering is idempotent, in \<^verbatim>\<open>Home.py\<close> (\<^verbatim>\<open>filter_data\<close>) and in
  \<^verbatim>\<open>pages/0_Main_Courts.py\<close> (\<^verbatim>\<open>filtrar\<close>).
\<close>

theorem filter_idempotent:
  "filter_data (filter_data df ys es ts cs) ys es ts cs = filter_data df ys es ts cs
   \<and> filtrar (filtrar d a s c t) a s c t = filtrar d a s c t"
  by (simp add: filter_data_eq_filter filtrar_eq_filter)

section \<open>The most frequent job title\<close>

lemma fold_max_eq_Max: "fold max ys (a::nat) = Max (insert a (set ys))"
  using Max.set_eq_fold [of a ys] by simp

lemma top_count_ge: "count_list xs v \<le> fold max (map (count_list xs) xs) 0"
proof (cases "v \<in> set xs")
  case True
  then have "count_list xs v \<in> insert 0 (set (map (count_list xs) xs))" by simp
  then show ?thesis unfolding fold_max_eq_Max by (intro Max_ge) auto
next
  case False
  then show ?thesis by (simp add: count_list_0_iff)
qed

lemma top_count_attained:
  assumes "xs \<noteq> []"
  shows "\<exists>v \<in> set xs. count_list xs v = fold max (map (count_list xs) xs) 0"
proof -
  let ?top = "fold max (map (count_list xs) xs) 0"
  have "?top \<in> insert 0 (set (map (count_list xs) xs))"
    unfolding fold_max_eq_Max by (intro Max_in) auto
  then consider "?top = 0" | "?top \<in> count_list xs ` set xs" by auto
  then show ?thesis
  proof cases
    case 1
    from assms obtain v where v: "v \<in> set xs" by (cases xs) auto
    have "count_list xs v \<le> ?top" by (rule top_count_ge)
    with 1 v show ?thesis by auto
  next
    case 2
    then show ?thesis by auto
  qed
qed

lemma set_mode:
  "set (mode xs) = {v \<in> set xs. count_list xs v = fold max (map (count_list xs) xs) 0}"
  by (auto simp: mode_def Let_def)

lemma sorted_mode: "sorted (mode xs)"
  by (simp add: mode_def Let_def)

lemma mode_nonempty: "xs \<noteq> [] \<Longrightarrow> mode xs \<noteq> []"
proof -
  assume "xs \<noteq> []"
  then obtain v where "v \<in> set (mode xs)"
    using top_count_attained [of xs] by (auto simp: set_mode)
  then show ?thesis by auto
qed

lemma iloc0_mode:
  assumes "xs \<noteq> []"
  shows "\<exists>t. iloc0 (mode xs) = Inr t \<and> t \<in> set xs
          \<and> (\<forall>u. count_list xs u \<le> count_list xs t)
          \<and> (\<forall>u. u \<in> set xs \<and> (\<forall>w. count_list xs w \<le> count_list xs u) \<longrightarrow> t \<le> u)"
proof -
  from mode_nonempty [OF assms] obtain t r where m: "mode xs = t # r" by (cases "mode xs") auto
  then have tin: "t \<in> set (mode xs)" by simp
  then have t1: "t \<in> set xs" and t2: "count_list xs t = fold max (map (count_list xs) xs) 0"
    by (auto simp: set_mode)
  have le: "\<forall>u \<in> set (mode xs). t \<le> u"
    using sorted_mode [of xs] m by auto
  have "t \<le> u" if u: "u \<in> set xs" "\<forall>w. count_list xs w \<le> count_list xs u" for u
  proof -
    from top_count_attained [OF assms] obtain v where "count_list xs v = fold max (map (count_list xs) xs) 0" by auto
    with u(2) top_count_ge [of xs u] have "count_list xs u = fold max (map (count_list xs) xs) 0"
      by (metis le_antisym)
    with u(1) have "u \<in> set (mode xs)" by (simp add: set_mode)
    with le show ?thesis by auto
  qed
  moreover have "\<forall>u. count_list xs u \<le> count_list xs t" using t2 top_count_ge by metis
  ultimately show ?thesis using m t1 by (auto simp: iloc0_def)
qed

text \<open>
  Claim C10. On a non-empty filtered table the most frequent job title of the KPI block
  is a job title of the table of the highest count, and it is less than or equal to
  (in the lexicographic order of strings) every job title of the highest count: among
  tied titles the smallest is reported, whatever the row order.
\<close>

theorem most_frequent_least_tied:
  assumes "df_filtered \<noteq> []"
  shows "\<exists>k. general_metrics df_filtered = Inr k
     \<and> most_frequent_job_title k \<in> set (map Job_Title df_filtered)
     \<and> (\<forall>u. count_list (map Job_Title df_filtered) u
              \<le> count_list (map Job_Title df_filtered) (most_frequent_job_title k))
     \<and> (\<forall>u. u \<in> set (map Job_Title df_filtered)
            \<and> (\<forall>w. count_list (map Job_Title df_filtered) w
                     \<le> count_list (map Job_Title df_filtered) u)
            \<longrightarrow> most_frequent_job_title k \<le> u)"
proof -
  from assms have "map Job_Title df_filtered \<noteq> []" by simp
  from iloc0_mode [OF this] obtain t where
    t: "iloc0 (mode (map Job_Title df_filtered)) = Inr t"
       "t \<in> set (map Job_Title df_filtered)"
       "\<forall>u. count_list (map Job_Title df_filtered) u \<le> count_list (map Job_Title df_filtered) t"
       "\<forall>u. u \<in> set (map Job_Title df_filtered)
            \<and> (\<forall>w. count_list (map Job_Title df_filtered) w
                     \<le> count_list (map Job_Title df_filtered) u) \<longrightarrow> t \<le> u"
    by blast
  show ?thesis
    using assms t by (simp add: general_metrics_def)
qed

theorem most_frequent_least_tied_witness:
  "[example_row 2021 ''b'' 100, example_row 2021 ''a'' 200, example_row 2022 ''b'' 300,
    example_row 2022 ''a'' 400, example_row 2022 ''c'' 500] \<noteq> []
   \<and> (\<exists>k. general_metrics [example_row 2021 ''b'' 100, example_row 2021 ''a'' 200,
          example_row 2022 ''b'' 300, example_row 2022 ''a'' 400, example_row 2022 ''c'' 500] = Inr k
        \<and> most_frequent_job_title k = ''a'')"
proof -
  let ?T = "[example_row 2021 ''b'' 100, example_row 2021 ''a'' 200, example_row 2022 ''b'' 300,
    example_row 2022 ''a'' 400, example_row 2022 ''c'' 500]"
  have ne: "?T \<noteq> []" by simp
  from most_frequent_least_tied [OF ne] obtain k where
    k: "general_metrics ?T = Inr k"
       "\<forall>u. u \<in> set (map Job_Title ?T)
            \<and> (\<forall>w. count_list (map Job_Title ?T) w \<le> count_list (map Job_Title ?T) u)
            \<longrightarrow> most_frequent_job_title k \<le> u"
       "most_frequent_job_title k \<in> set (map Job_Title ?T)"
       "\<forall>u. count_list (map Job_Title ?T) u
              \<le> count_list (map Job_Title ?T) (most_frequent_job_title k)"
    by blast
  have "general_metrics ?T = Inr \<lparr>average_salary = Fin 300, median_salary = Fin 300,
      maximum_salary = Fin 500, total_records = 5, most_frequent_job_title = ''a''\<rparr>"
    by code_simp
  with k(1) have "most_frequent_job_title k = ''a''" by auto
  with ne k(1) show ?thesis by blast
qed

section \<open>The outlier removal\<close>

lemma getitem_mask_map2: "getitem_mask xs (map p (map f xs)) = filter (\<lambda>x. p (f x)) xs"
  using getitem_mask_map [of xs "\<lambda>x. p (f x)"] by (simp add: comp_def)

lemma quantile_linear:
  assumes "xs \<noteq> []" "0 \<le> p" "p \<le> 1"
  shows "quantile xs p = Inr (Fin (percentile_linear xs p))"
proof -
  define h where "h = of_nat (length xs - 1) * p"
  define s where "s = sort xs"
  define lo where "lo = nat \<lfloor>h\<rfloor>"
  have q: "quantile xs p =
      Inr (Fin (s ! lo + (s ! min (lo + 1) (length xs - 1) - s ! lo) * (h - of_nat lo)))"
    using assms by (simp add: quantile_def Let_def h_def s_def lo_def del: of_nat_diff)
  have pl: "percentile_linear xs p = s ! lo + (h - of_int \<lfloor>h\<rfloor>) * (s ! nat \<lceil>h\<rceil> - s ! lo)"
    by (simp add: percentile_linear_def Let_def h_def s_def lo_def del: of_nat_diff)
  have h0: "0 \<le> h" unfolding h_def using assms by simp
  have h1: "h \<le> of_nat (length xs - 1)"
    unfolding h_def using assms(2,3) by (intro mult_left_le) simp_all
  have lo: "(of_nat lo :: rat) = of_int \<lfloor>h\<rfloor>" unfolding lo_def using h0 by simp
  have "s ! lo + (s ! min (lo + 1) (length xs - 1) - s ! lo) * (h - of_nat lo)
      = s ! lo + (h - of_int \<lfloor>h\<rfloor>) * (s ! nat \<lceil>h\<rceil> - s ! lo)"
  proof (cases "h = of_int \<lfloor>h\<rfloor>")
    case True
    then have "h - of_nat lo = 0" using lo by simp
    moreover have "h - of_int \<lfloor>h\<rfloor> = 0" using True by simp
    ultimately show ?thesis by (simp only: mult_zero_left mult_zero_right)
  next
    case False
    then have c: "\<lceil>h\<rceil> = \<lfloor>h\<rfloor> + 1" by (simp add: ceiling_altdef)
    have "h \<noteq> of_nat (length xs - 1)" using False by (metis floor_of_nat of_int_of_nat_eq)
    with h1 have "h < of_int (int (length xs - 1))" by simp
    then have "\<lfloor>h\<rfloor> < int (length xs - 1)" by (simp only: floor_less_iff)
    moreover have "0 \<le> \<lfloor>h\<rfloor>" using h0 by simp
    ultimately have "lo + 1 \<le> length xs - 1" "nat \<lceil>h\<rceil> = lo + 1"
      unfolding lo_def c by linarith+
    then have "min (lo + 1) (length xs - 1) = nat \<lceil>h\<rceil>" by simp
    then show ?thesis unfolding lo by (simp only: mult.commute)
  qed
  then show ?thesis unfolding q pl by (simp only:)
qed

lemma trim_at_filter:
  assumes "T \<noteq> []" "0 \<le> p" "p \<le> 1"
  shows "trim_at p T =
    Inr (filter (\<lambda>r. Salary_In_Usd r \<le> percentile_linear (map Salary_In_Usd T) p) T)"
proof -
  have q: "quantile (map Salary_In_Usd T) p = Inr (Fin (percentile_linear (map Salary_In_Usd T) p))"
    using assms by (intro quantile_linear) auto
  have "getitem_mask T (map (\<lambda>x. le_float x (Fin (percentile_linear (map Salary_In_Usd T) p)))
            (map Salary_In_Usd T))
        = filter (\<lambda>r. Salary_In_Usd r \<le> percentile_linear (map Salary_In_Usd T) p) T"
    by (simp only: getitem_mask_map2 le_float.simps)
  then show ?thesis using assms(1) unfolding trim_at_def q by simp
qed

text \<open>
  Claim C4. On a non-empty table and for a level \<open>p\<close> with \<open>0 < p \<le> 1\<close>, the outlier
  removal computes the \<open>p\<close>-th percentile of the salary column by linear interpolation
  and keeps exactly the rows whose salary is at most that threshold, in row order: a
  subsequence of the table, of at most its size. \<^verbatim>\<open>Home.py\<close> does so at the level 0.99.
  On the empty table it returns the empty table, and no percentile is computed.
\<close>

theorem trim_to_percentile:
  assumes "T \<noteq> []" "0 < p" "p \<le> 1"
  shows "trim_at p [] = Inr []
       \<and> df_vis [] = Inr []
       \<and> quantile (map Salary_In_Usd T) p = Inr (Fin (percentile_linear (map Salary_In_Usd T) p))
       \<and> trim_at p T =
           Inr (filter (\<lambda>r. Salary_In_Usd r \<le> percentile_linear (map Salary_In_Usd T) p) T)
       \<and> df_vis T =
           Inr (filter (\<lambda>r. Salary_In_Usd r \<le> percentile_linear (map Salary_In_Usd T) (99 / 100)) T)
       \<and> (\<exists>kept. trim_at p T = Inr kept \<and> subseq kept T \<and> length kept \<le> length T)"
proof -
  have "trim_at p [] = Inr []" "df_vis [] = Inr []" by (simp_all add: df_vis_def trim_at_def)
  moreover have "quantile (map Salary_In_Usd T) p = Inr (Fin (percentile_linear (map Salary_In_Usd T) p))"
    using assms by (intro quantile_linear) auto
  moreover have t: "trim_at p T =
           Inr (filter (\<lambda>r. Salary_In_Usd r \<le> percentile_linear (map Salary_In_Usd T) p) T)"
    using assms by (intro trim_at_filter) auto
  moreover have "df_vis T =
           Inr (filter (\<lambda>r. Salary_In_Usd r \<le> percentile_linear (map Salary_In_Usd T) (99 / 100)) T)"
    unfolding df_vis_def using assms(1) by (intro trim_at_filter) auto
  moreover have "\<exists>kept. trim_at p T = Inr kept \<and> subseq kept T \<and> length kept \<le> length T"
    unfolding t by simp
  ultimately show ?thesis by blast
qed

lemma df_vis_total: "\<exists>v. df_vis T = Inr v"
proof (cases "T = []")
  case True then show ?thesis by (simp add: df_vis_def trim_at_def)
next
  case False then show ?thesis unfolding df_vis_def using trim_at_filter [of T "99/100"] by simp
qed

theorem trim_to_percentile_witness:
  "[example_row 2021 ''a'' 100, example_row 2021 ''b'' 200, example_row 2022 ''a'' 1000] \<noteq> []
   \<and> (0::rat) < 99 / 100 \<and> (99 / 100 :: rat) \<le> 1
   \<and> percentile_linear [100, 200, 1000] (99 / 100) = 984
   \<and> df_vis [example_row 2021 ''a'' 100, example_row 2021 ''b'' 200, example_row 2022 ''a'' 1000]
       = Inr [example_row 2021 ''a'' 100, example_row 2021 ''b'' 200]"
proof -
  let ?T = "[example_row 2021 ''a'' 100, example_row 2021 ''b'' 200, example_row 2022 ''a'' 1000]"
  have ne: "?T \<noteq> []" by simp
  have p: "(0::rat) < 99 / 100" "(99 / 100 :: rat) \<le> 1" by simp_all
  have v: "percentile_linear [100, 200, 1000] (99 / 100) = 984" by code_simp
  have s: "map Salary_In_Usd ?T = [100, 200, 1000]" by (simp add: example_row_def)
  from trim_to_percentile [OF ne p] have
    "df_vis ?T = Inr (filter (\<lambda>r. Salary_In_Usd r \<le> percentile_linear (map Salary_In_Usd ?T) (99 / 100)) ?T)"
    by (elim conjE)
  then have "df_vis ?T = Inr [example_row 2021 ''a'' 100, example_row 2021 ''b'' 200]"
    unfolding s v by (simp add: example_row_def)
  with ne p v show ?thesis by (intro conjI)
qed

section \<open>The page of Home.py as a whole\<close>

lemma general_metrics_total: "\<exists>k. general_metrics df_filtered = Inr k"
proof (cases "df_filtered = []")
  case True
  then show ?thesis by (simp add: general_metrics_def)
next
  case False
  then have "map Job_Title df_filtered \<noteq> []" by simp
  from iloc0_mode [OF this] obtain t where "iloc0 (mode (map Job_Title df_filtered)) = Inr t"
    by blast
  with False show ?thesis by (simp add: general_metrics_def)
qed

lemma home_blocks:
  assumes "general_metrics (filter_data df ys es ts cs) = Inr k"
      and "df_vis (filter_data df ys es ts cs) = Inr v"
  shows "home df ys es ts cs a b =
           Inr \<lparr>env_df_filtered = filter_data df ys es ts cs,
                env_kpis = k,
                env_growth = growth (filter_data df ys es ts cs),
                env_df_vis = v,
                env_top_job_titles = top_job_titles v,
                env_average_country_salary = average_country_salary v,
                env_comparison = comparison (filter_data df ys es ts cs) a b\<rparr>"
  using assms
  by (simp add: home_def kpi_block_def insight_block_def outlier_block_def charts_block_def
      comparison_block_def)

text \<open>
  Claim C5. The KPI scalars of the page are those of the KPI block on the untrimmed
  filtered table; the trimmed table is a separate variable, read by the charts only, and
  the outlier removal assigns that variable and nothing else: it changes no KPI scalar
  and leaves the filtered table as it was.
\<close>

theorem kpis_from_untrimmed:
  "(\<exists>k v. general_metrics (filter_data df ys es ts cs) = Inr k
        \<and> df_vis (filter_data df ys es ts cs) = Inr v
        \<and> home df ys es ts cs a b =
            Inr \<lparr>env_df_filtered = filter_data df ys es ts cs,
                 env_kpis = k,
                 env_growth = growth (filter_data df ys es ts cs),
                 env_df_vis = v,
                 env_top_job_titles = top_job_titles v,
                 env_average_country_salary = average_country_salary v,
                 env_comparison = comparison (filter_data df ys es ts cs) a b\<rparr>)
   \<and> (\<exists>v. outlier_block e = Inr (e\<lparr>env_df_vis := v\<rparr>))"
proof -
  obtain k where k: "general_metrics (filter_data df ys es ts cs) = Inr k"
    using general_metrics_total by blast
  obtain v where v: "df_vis (filter_data df ys es ts cs) = Inr v"
    using df_vis_total by blast
  obtain w where w: "df_vis (env_df_filtered e) = Inr w"
    using df_vis_total by blast
  have "outlier_block e = Inr (e\<lparr>env_df_vis := w\<rparr>)"
    by (simp add: outlier_block_def w)
  with home_blocks [OF k v] k v show ?thesis by blast
qed

theorem kpis_from_untrimmed_witness:
  "\<exists>k v. general_metrics [example_row 2021 ''a'' 100, example_row 2021 ''b'' 200,
              example_row 2022 ''a'' 1000] = Inr k
       \<and> home [example_row 2021 ''a'' 100, example_row 2021 ''b'' 200, example_row 2022 ''a'' 1000]
            [2021, 2022] [''SE''] [''FT''] [''M''] ''a'' ''b''
          = Inr \<lparr>env_df_filtered = [example_row 2021 ''a'' 100, example_row 2021 ''b'' 200,
                    example_row 2022 ''a'' 1000],
                 env_kpis = k,
                 env_growth = growth [example_row 2021 ''a'' 100, example_row 2021 ''b'' 200,
                    example_row 2022 ''a'' 1000],
                 env_df_vis = v,
                 env_top_job_titles = top_job_titles v,
                 env_average_country_salary = average_country_salary v,
                 env_comparison = comparison [example_row 2021 ''a'' 100,
                    example_row 2021 ''b'' 200, example_row 2022 ''a'' 1000] ''a'' ''b''\<rparr>
       \<and> average_salary k = Fin (1300 / 3)
       \<and> maximum_salary k = Fin 1000
       \<and> total_records k = 3
       \<and> mean (map Salary_In_Usd v) = Fin 150"
proof -
  let ?T = "[example_row 2021 ''a'' 100, example_row 2021 ''b'' 200, example_row 2022 ''a'' 1000]"
  have f: "filter_data ?T [2021, 2022] [''SE''] [''FT''] [''M''] = ?T"
    by (simp add: filter_data_eq_filter example_row_def)
  have g: "general_metrics ?T = Inr \<lparr>average_salary = Fin (1300 / 3), median_salary = Fin 200,
        maximum_salary = Fin 1000, total_records = 3, most_frequent_job_title = ''a''\<rparr>"
    by code_simp
  have d: "df_vis ?T = Inr [example_row 2021 ''a'' 100, example_row 2021 ''b'' 200]"
    by code_simp
  have m: "mean (map Salary_In_Usd [example_row 2021 ''a'' 100, example_row 2021 ''b'' 200]) = Fin 150"
    by code_simp
  from kpis_from_untrimmed [of ?T "[2021, 2022]" "[''SE'']" "[''FT'']" "[''M'']" "''a''" "''b''"]
  obtain k v where kv: "general_metrics ?T = Inr k" "df_vis ?T = Inr v"
    "home ?T [2021, 2022] [''SE''] [''FT''] [''M''] ''a'' ''b''
          = Inr \<lparr>env_df_filtered = ?T, env_kpis = k, env_growth = growth ?T, env_df_vis = v,
                 env_top_job_titles = top_job_titles v,
                 env_average_country_salary = average_country_salary v,
                 env_comparison = comparison ?T ''a'' ''b''\<rparr>"
    unfolding f by blast
  from kv(1) g have k: "k = \<lparr>average_salary = Fin (1300 / 3), median_salary = Fin 200,
        maximum_salary = Fin 1000, total_records = 3, most_frequent_job_title = ''a''\<rparr>" by simp
  from kv(2) d have v: "v = [example_row 2021 ''a'' 100, example_row 2021 ''b'' 200]" by simp
  have "average_salary k = Fin (1300 / 3)" "maximum_salary k = Fin 1000" "total_records k = 3"
    unfolding k by simp_all
  moreover have "mean (map Salary_In_Usd v) = Fin 150" unfolding v by (rule m)
  ultimately show ?thesis using kv(1,3) by blast
qed

text \<open>
  Claim C7, amended. On the empty filtered table the KPI block of \<^verbatim>\<open>Home.py\<close>
  returns count 0, the placeholder 0 for mean, median and maximum, and \<open>-\<close> for the most
  frequent job title; every other aggregation of that page is skipped or returns the
  empty table; the whole page ends without an exception.
  \<^verbatim>\<open>pages/0_Main_Courts.py\<close> returns no statistics on the empty filtered table: it
  stops with its warning before any aggregation, and only on the empty table.
\<close>

theorem empty_table_neutral:
  assumes "filter_data df ys es ts cs = []"
  shows "general_metrics [] =
           Inr \<lparr>average_salary = Fin 0, median_salary = Fin 0, maximum_salary = Fin 0,
                total_records = 0, most_frequent_job_title = ''-''\<rparr>
       \<and> growth [] = None
       \<and> df_vis [] = Inr []
       \<and> top_job_titles [] = None
       \<and> average_country_salary [] = None
       \<and> comparison [] a b = None
       \<and> home df ys es ts cs a b =
           Inr \<lparr>env_df_filtered = [],
                env_kpis = \<lparr>average_salary = Fin 0, median_salary = Fin 0,
                            maximum_salary = Fin 0, total_records = 0,
                            most_frequent_job_title = ''-''\<rparr>,
                env_growth = None, env_df_vis = [], env_top_job_titles = None,
                env_average_country_salary = None, env_comparison = None\<rparr>
       \<and> main_courts [] m c1 c2 = Stopped ''Nenhum dado com os filtros selecionados.''
       \<and> main_courts (r # rs) m c1 c2 \<noteq> Stopped ''Nenhum dado com os filtros selecionados.''"
proof -
  have g: "general_metrics [] =
           Inr \<lparr>average_salary = Fin 0, median_salary = Fin 0, maximum_salary = Fin 0,
                total_records = 0, most_frequent_job_title = ''-''\<rparr>"
    by (simp add: general_metrics_def)
  have gr: "growth [] = None" by (simp add: growth_def)
  have d: "df_vis [] = Inr []" by (simp add: df_vis_def trim_at_def)
  have t: "top_job_titles [] = None" by (simp add: top_job_titles_def)
  have c: "average_country_salary [] = None"
    by (simp add: average_country_salary_def getitem_mask_def)
  have p: "comparison [] a b = None" by (simp add: comparison_def)
  have h: "home df ys es ts cs a b =
           Inr \<lparr>env_df_filtered = [],
                env_kpis = \<lparr>average_salary = Fin 0, median_salary = Fin 0,
                            maximum_salary = Fin 0, total_records = 0,
                            most_frequent_job_title = ''-''\<rparr>,
                env_growth = None, env_df_vis = [], env_top_job_titles = None,
                env_average_country_salary = None, env_comparison = None\<rparr>"
    using home_blocks [of df ys es ts cs _ _ a b] unfolding assms
    using g d by (simp add: gr t c p)
  have s: "main_courts [] m c1 c2 = Stopped ''Nenhum dado com os filtros selecionados.''"
    by (simp add: main_courts_def)
  have n: "main_courts (r # rs) m c1 c2 \<noteq> Stopped ''Nenhum dado com os filtros selecionados.''"
    by (simp add: main_courts_def Let_def split: sum.splits)
  from g gr d t c p h s n show ?thesis by (intro conjI)
qed

theorem empty_table_neutral_witness:
  "filter_data [example_row 2021 ''a'' 100, example_row 2022 ''b'' 200] [] [''SE''] [''FT''] [''M''] = []
   \<and> home [example_row 2021 ''a'' 100, example_row 2022 ''b'' 200] [] [''SE''] [''FT''] [''M'']
        ''a'' ''b'' =
       Inr \<lparr>env_df_filtered = [],
            env_kpis = \<lparr>average_salary = Fin 0, median_salary = Fin 0,
                        maximum_salary = Fin 0, total_records = 0,
                        most_frequent_job_title = ''-''\<rparr>,
            env_growth = None, env_df_vis = [], env_top_job_titles = None,
            env_average_country_salary = None, env_comparison = None\<rparr>"
proof -
  have f: "filter_data [example_row 2021 ''a'' 100, example_row 2022 ''b'' 200] []
             [''SE''] [''FT''] [''M''] = []"
    by (simp add: filter_data_eq_filter)
  from empty_table_neutral [OF f, of "''a''" "''b''" USD "''a''" "''b''"
      "example_registro 2021 ''a'' 100" "[]"]
  have "home [example_row 2021 ''a'' 100, example_row 2022 ''b'' 200] [] [''SE''] [''FT''] [''M'']
        ''a'' ''b'' =
       Inr \<lparr>env_df_filtered = [],
            env_kpis = \<lparr>average_salary = Fin 0, median_salary = Fin 0,
                        maximum_salary = Fin 0, total_records = 0,
                        most_frequent_job_title = ''-''\<rparr>,
            env_growth = None, env_df_vis = [], env_top_job_titles = None,
            env_average_country_salary = None, env_comparison = None\<rparr>"
    by (elim conjE)
  with f show ?thesis by (intro conjI)
qed

text \<open>
  Claim C7 as stated fails: on the empty filtered table \<^verbatim>\<open>pages/0_Main_Courts.py\<close>
  returns no count, placeholder or \<open>-\<close>, it stops; and \<^verbatim>\<open>pages/1_Overview.py\<close>, which
  has no guard, shows NaN for the mean and the median of a file without rows.
\<close>

theorem empty_table_stops_counterexample:
  "main_courts [] USD ''a'' ''b'' = Stopped ''Nenhum dado com os filtros selecionados.''
   \<and> overview [(''usd'', [])]
       = Rendered \<lparr>ov_average_salary = NaN, ov_median_salary = NaN, ov_total_records = 0\<rparr>"
proof -
  have 1: "main_courts [] USD ''a'' ''b'' = Stopped ''Nenhum dado com os filtros selecionados.''"
    by (simp add: main_courts_def)
  have 2: "overview [(''usd'', [])]
       = Rendered \<lparr>ov_average_salary = NaN, ov_median_salary = NaN, ov_total_records = 0\<rparr>"
    by code_simp
  from 1 2 show ?thesis by (intro conjI)
qed

section \<open>The growth insight\<close>

lemma groupby_mean_keys: "map fst (groupby_mean key val df) = sort (remdups (map key df))"
  by (simp add: groupby_mean_def comp_def)

lemma length_groupby_mean: "length (groupby_mean key val df) = card (key ` set df)"
  by (simp add: groupby_mean_def length_remdups_card_conv)

lemma groupby_mean_Year: "map snd (groupby_mean Year Salary_In_Usd T) = yearly_means T"
  by (simp add: groupby_mean_def yearly_means_def comp_def)

lemma zip_tl_nth: "zip ms (tl ms) = map (\<lambda>i. (ms ! i, ms ! (i + 1))) [0..<length ms - 1]"
  by (rule nth_equalityI) (simp_all add: nth_tl)

lemma pct_change_finite:
  assumes "ms \<noteq> []" and "\<forall>i < length ms - 1. ms ! i \<noteq> 0"
  shows "pct_change ms =
           NaN # map Fin (map (\<lambda>i. ms ! (i + 1) / ms ! i - 1) [0..<length ms - 1])"
proof -
  from assms(1) obtain m r where ms: "ms = m # r" by (cases ms) auto
  have "pct_change ms = NaN # map (\<lambda>(prev, cur). minus1 (fdiv cur prev)) (zip ms (tl ms))"
    by (simp add: pct_change_def ms)
  also have "map (\<lambda>(prev, cur). minus1 (fdiv cur prev)) (zip ms (tl ms))
      = map (\<lambda>i. minus1 (fdiv (ms ! (i + 1)) (ms ! i))) [0..<length ms - 1]"
    unfolding zip_tl_nth by (simp add: comp_def)
  also have "\<dots> = map (\<lambda>i. Fin (ms ! (i + 1) / ms ! i - 1)) [0..<length ms - 1]"
    using assms(2) by (intro map_cong) (simp_all add: fdiv_def)
  finally show ?thesis by (simp add: comp_def)
qed

lemma foldr_fadd_Fin: "foldr fadd (map Fin zs) (Fin a) = Fin (sum_list zs + a)"
  by (induction zs) simp_all

lemma fmean_NaN_Fin:
  assumes "zs \<noteq> []"
  shows "fmean (NaN # map Fin zs) = Fin (sum_list zs / of_nat (length zs))"
proof -
  have "filter (\<lambda>v. v \<noteq> NaN) (NaN # map Fin zs) = map Fin zs"
    by (induction zs) simp_all
  then show ?thesis using assms by (simp add: fmean_def foldr_fadd_Fin)
qed

lemma growth_finite:
  assumes "2 \<le> card (Year ` set T)"
      and "\<forall>i < length (yearly_means T) - 1. yearly_means T ! i \<noteq> 0"
  shows "growth T = Some (Fin (average_growth (yearly_means T)))"
proof -
  define ms where "ms = yearly_means T"
  have len: "length ms = card (Year ` set T)"
    unfolding ms_def groupby_mean_Year [symmetric] by (simp add: length_groupby_mean)
  with assms(1) have n2: "2 \<le> length ms" by simp
  then have ne: "ms \<noteq> []" by auto
  have T: "T \<noteq> []" using assms(1) by auto
  have nu: "1 < nunique (map Year T)"
    using assms(1) by (simp add: nunique_def length_remdups_card_conv)
  define zs where "zs = map (\<lambda>i. ms ! (i + 1) / ms ! i - 1) [0..<length ms - 1]"
  have zne: "zs \<noteq> []" using n2 by (simp add: zs_def)
  have lz: "length zs = length ms - 1" by (simp add: zs_def)
  have nz: "\<forall>i < length ms - 1. ms ! i \<noteq> 0" using assms(2) by (simp add: ms_def)
  have "growth T = Some (times100 (fmean (pct_change ms)))"
    using T nu by (simp add: growth_def groupby_mean_Year ms_def)
  also have "pct_change ms = NaN # map Fin zs"
    unfolding zs_def using ne nz by (rule pct_change_finite)
  also have "fmean (NaN # map Fin zs) = Fin (sum_list zs / of_nat (length zs))"
    using zne by (rule fmean_NaN_Fin)
  also have "times100 (Fin (sum_list zs / of_nat (length zs)))
      = Fin (sum_list zs * 100 / of_nat (length ms - 1))"
    by (simp add: lz)
  also have "sum_list zs * 100
      = (\<Sum>i\<leftarrow>[0..<length ms - 1]. (ms ! (i + 1) - ms ! i) / ms ! i * 100)"
  proof -
    have "sum_list zs * 100 = (\<Sum>i\<leftarrow>[0..<length ms - 1]. (ms ! (i + 1) / ms ! i - 1) * 100)"
      unfolding zs_def by (simp only: sum_list_mult_const [symmetric] map_map comp_def)
    also have "\<dots> = (\<Sum>i\<leftarrow>[0..<length ms - 1]. (ms ! (i + 1) - ms ! i) / ms ! i * 100)"
    proof (rule arg_cong [where f = sum_list], rule map_cong [OF refl])
      fix i assume "i \<in> set [0..<length ms - 1]"
      then have "ms ! i \<noteq> 0" using nz by simp
      then show "(ms ! (i + 1) / ms ! i - 1) * 100 = (ms ! (i + 1) - ms ! i) / ms ! i * 100"
        by (simp add: diff_divide_distrib)
    qed
    finally show ?thesis .
  qed
  finally show ?thesis by (simp add: average_growth_def ms_def)
qed

lemma growth_none:
  assumes "card (Year ` set T) < 2"
  shows "growth T = None"
  using assms by (simp add: growth_def nunique_def length_remdups_card_conv)

text \<open>
  Claim C3, amended. On a table with at least two distinct years in which the mean salary
  of every year but the last is not zero, the growth is the arithmetic mean of the
  percentage changes of the yearly mean salary between consecutive years, the years in
  ascending order (with yearly means 100, 110, 121 it is 10 percent), and the insight
  shows it. On a table with fewer than two distinct years no growth is computed and the
  insight shows nothing.
\<close>

theorem growth_mean_of_changes:
  "(card (Year ` set T) < 2 \<longrightarrow> growth T = None \<and> insight T = None)
   \<and> (2 \<le> card (Year ` set T)
        \<and> (\<forall>i < length (yearly_means T) - 1. yearly_means T ! i \<noteq> 0)
      \<longrightarrow> growth T = Some (Fin (average_growth (yearly_means T)))
        \<and> insight T =
            Some (if 0 < average_growth (yearly_means T)
                  then Success (Fin (average_growth (yearly_means T)))
                  else Warning (Fin (average_growth (yearly_means T)))))"
  using growth_finite [of T] growth_none [of T] by (auto simp: insight_def)

theorem growth_mean_of_changes_witness:
  "card (Year ` set [example_row 2021 ''a'' 150]) < 2
   \<and> growth [example_row 2021 ''a'' 150] = None
   \<and> insight [example_row 2021 ''a'' 150] = None
   \<and> 2 \<le> card (Year ` set [example_row 2021 ''a'' 100, example_row 2022 ''a'' 110,
                          example_row 2023 ''a'' 121])
   \<and> yearly_means [example_row 2021 ''a'' 100, example_row 2022 ''a'' 110,
                   example_row 2023 ''a'' 121] = [100, 110, 121]
   \<and> average_growth [100, 110, 121] = 10
   \<and> growth [example_row 2021 ''a'' 100, example_row 2022 ''a'' 110,
             example_row 2023 ''a'' 121] = Some (Fin 10)
   \<and> insight [example_row 2021 ''a'' 100, example_row 2022 ''a'' 110,
             example_row 2023 ''a'' 121] = Some (Success (Fin 10))"
proof -
  let ?T = "[example_row 2021 ''a'' 100, example_row 2022 ''a'' 110, example_row 2023 ''a'' 121]"
  have c1: "card (Year ` set [example_row 2021 ''a'' 150]) < 2" by simp
  have c3: "2 \<le> card (Year ` set ?T)" by (simp add: example_row_def)
  have ym: "yearly_means ?T = [100, 110, 121]" by code_simp
  have ag: "average_growth [100, 110, 121] = 10" by code_simp
  have nz: "\<forall>i < length (yearly_means ?T) - 1. yearly_means ?T ! i \<noteq> 0"
    unfolding ym by (simp add: less_Suc_eq)
  from growth_mean_of_changes [of "[example_row 2021 ''a'' 150]"] c1
  have g1: "growth [example_row 2021 ''a'' 150] = None"
    and i1: "insight [example_row 2021 ''a'' 150] = None" by blast+
  from growth_mean_of_changes [of ?T] c3 nz
  have "growth ?T = Some (Fin (average_growth (yearly_means ?T)))"
    and "insight ?T =
            Some (if 0 < average_growth (yearly_means ?T)
                  then Success (Fin (average_growth (yearly_means ?T)))
                  else Warning (Fin (average_growth (yearly_means ?T))))" by blast+
  then have g3: "growth ?T = Some (Fin 10)" and i3: "insight ?T = Some (Success (Fin 10))"
    unfolding ym ag by simp_all
  from c1 g1 i1 c3 ym ag g3 i3 show ?thesis by (intro conjI)
qed

text \<open>
  Claim C3 as stated fails. With yearly means 0 and 100 the growth is infinite. With
  yearly means 100, 0, 0 the second change is NaN and is dropped, and the growth is that
  of the first period alone. And on a table of a single year the insight shows nothing:
  no trend is reported.
\<close>

theorem growth_zero_mean_counterexample:
  "yearly_means [example_row 2021 ''a'' 0, example_row 2022 ''a'' 100] = [0, 100]
   \<and> growth [example_row 2021 ''a'' 0, example_row 2022 ''a'' 100] = Some PInf
   \<and> yearly_means [example_row 2021 ''a'' 100, example_row 2022 ''a'' 0,
                   example_row 2023 ''a'' 0] = [100, 0, 0]
   \<and> pct_change [100, 0, 0] = [NaN, Fin (- 1), NaN]
   \<and> growth [example_row 2021 ''a'' 100, example_row 2022 ''a'' 0, example_row 2023 ''a'' 0]
       = Some (Fin (- 100))
   \<and> card (Year ` set [example_row 2021 ''a'' 150]) < 2
   \<and> insight [example_row 2021 ''a'' 150] = None"
proof -
  have 1: "yearly_means [example_row 2021 ''a'' 0, example_row 2022 ''a'' 100] = [0, 100]"
    by code_simp
  have 2: "growth [example_row 2021 ''a'' 0, example_row 2022 ''a'' 100] = Some PInf"
    by code_simp
  have 3: "yearly_means [example_row 2021 ''a'' 100, example_row 2022 ''a'' 0,
                   example_row 2023 ''a'' 0] = [100, 0, 0]" by code_simp
  have 4: "pct_change [100, 0, 0] = [NaN, Fin (- 1), NaN]" by code_simp
  have 5: "growth [example_row 2021 ''a'' 100, example_row 2022 ''a'' 0, example_row 2023 ''a'' 0]
       = Some (Fin (- 100))" by code_simp
  have 6: "card (Year ` set [example_row 2021 ''a'' 150]) < 2" by simp
  have 7: "insight [example_row 2021 ''a'' 150] = None" by code_simp
  from 1 2 3 4 5 6 7 show ?thesis by (intro conjI)
qed

section \<open>The best paid job titles\<close>

lemma sorted_distinct_groupby_mean:
  "sorted (map fst (groupby_mean key val df))" "distinct (map fst (groupby_mean key val df))"
  by (simp_all add: groupby_mean_keys)

lemma nlargest_order:
  fixes t :: "('k::linorder \<times> rat) list"
  assumes srt: "sorted (map fst t)" and dst: "distinct (map fst t)"
      and x: "x \<in> set (nlargest n t)" and y: "y \<in> set t" and ny: "y \<notin> set (nlargest n t)"
  shows "snd y < snd x \<or> (snd y = snd x \<and> fst x < fst y)"
proof -
  define f :: "'k \<times> rat \<Rightarrow> rat" where "f = (\<lambda>(k, m). - m)"
  have f_snd: "f z = - snd z" for z by (simp add: f_def case_prod_beta)
  define ys where "ys = sort_key f t"
  have nl: "nlargest n t = take n ys" by (simp add: nlargest_def ys_def f_def)
  have split: "ys = take n ys @ drop n ys" by simp
  from y have "y \<in> set ys" by (simp add: ys_def)
  then have "y \<in> set (take n ys) \<union> set (drop n ys)" by (metis split set_append)
  with ny nl have yd: "y \<in> set (drop n ys)" by simp
  from x nl have xt: "x \<in> set (take n ys)" by simp
  have "sorted (map f ys)" by (simp add: ys_def)
  then have "sorted (map f (take n ys) @ map f (drop n ys))" by (metis split map_append)
  then have "f x \<le> f y" using xt yd by (auto simp: sorted_append)
  then have le: "snd y \<le> snd x" by (simp add: f_snd)
  show ?thesis
  proof (cases "snd y = snd x")
    case False
    with le show ?thesis by simp
  next
    case True
    then have fxy: "f y = f x" by (simp add: f_snd)
    define P where "P = (\<lambda>z. f z = f x)"
    have "filter P ys = filter P t" unfolding P_def ys_def by (rule sort_key_stable)
    then have eq: "filter P t = filter P (take n ys) @ filter P (drop n ys)"
      by (metis split filter_append)
    have xa: "x \<in> set (filter P (take n ys))" using xt by (simp add: P_def)
    have yb: "y \<in> set (filter P (drop n ys))" using yd fxy by (simp add: P_def)
    have "sorted (map fst (filter P t))" using srt by (rule sorted_filter)
    then have s: "sorted (map fst (filter P (take n ys)) @ map fst (filter P (drop n ys)))"
      unfolding eq by simp
    have "distinct (map fst (filter P t))" using dst by (rule distinct_map_filter)
    then have d: "distinct (map fst (filter P (take n ys)) @ map fst (filter P (drop n ys)))"
      unfolding eq by simp
    have fx: "fst x \<in> set (map fst (filter P (take n ys)))" using xa by (simp only: set_map) (rule imageI)
    have fy: "fst y \<in> set (map fst (filter P (drop n ys)))" using yb by (simp only: set_map) (rule imageI)
    from s fx fy have "fst x \<le> fst y" by (auto simp only: sorted_append)
    moreover from d fx fy have "fst x \<noteq> fst y" by (auto simp only: distinct_append)
    ultimately show ?thesis using True by simp
  qed
qed

lemma set_sort_values: "set (sort_values t) = set t" "length (sort_values t) = length t"
  by (simp_all add: sort_values_def)

lemma top_selection_groupby:
  "top_selection n (groupby_mean key val df) (sort_values (nlargest n (groupby_mean key val df)))"
proof -
  let ?g = "groupby_mean key val df"
  have 1: "length (sort_values (nlargest n ?g)) \<le> n"
    by (simp add: set_sort_values nlargest_def)
  have 2: "set (sort_values (nlargest n ?g)) \<subseteq> set ?g"
    unfolding set_sort_values nlargest_def using set_take_subset [of n "sort_key (\<lambda>(k, m). - m) ?g"]
    by simp
  have 3: "\<forall>x \<in> set (sort_values (nlargest n ?g)). \<forall>y \<in> set ?g - set (sort_values (nlargest n ?g)).
           snd y < snd x \<or> (snd y = snd x \<and> fst x < fst y)"
    unfolding set_sort_values
    using nlargest_order [OF sorted_distinct_groupby_mean [of key val df]] by blast
  have 4: "length ?g \<le> n \<longrightarrow> set (sort_values (nlargest n ?g)) = set ?g"
    by (simp add: set_sort_values nlargest_def)
  from 1 2 3 4 show ?thesis unfolding top_selection_def by (intro conjI)
qed

lemma set_groupby_mean:
  "set (groupby_mean key val df)
     = (\<lambda>k. (k, avg (map val (filter (\<lambda>r. key r = k) df)))) ` key ` set df"
  by (simp add: groupby_mean_def)

text \<open>
  Claim C2, amended. On a non-empty table the top job titles are at most 10 pairs of a
  job title and the mean salary of its rows; every selected title has a mean greater
  than or equal to that of every title left out; among titles of equal mean the one with
  the smaller title (the order of the grouped table, which \<open>groupby\<close> sorts by key) is
  selected first; and with 10 distinct titles or fewer all are returned. The same holds
  for \<^verbatim>\<open>top_cargos\<close> of \<^verbatim>\<open>pages/0_Main_Courts.py\<close> whenever that page renders.
\<close>

theorem top_ten_selection:
  assumes "vis \<noteq> []"
  shows "set (groupby_mean Job_Title Salary_In_Usd vis)
           = (\<lambda>k. (k, avg (map Salary_In_Usd (filter (\<lambda>r. Job_Title r = k) vis))))
               ` Job_Title ` set vis
       \<and> sorted (map fst (groupby_mean Job_Title Salary_In_Usd vis))
       \<and> (\<exists>sel. top_job_titles vis = Some sel
             \<and> top_selection 10 (groupby_mean Job_Title Salary_In_Usd vis) sel)
       \<and> (\<forall>e. main_courts df_f m c1 c2 = Rendered e \<longrightarrow>
             top_selection 10 (groupby_mean cargo (salario m) df_f) (top_cargos e))"
proof -
  have 1: "top_job_titles vis
             = Some (sort_values (nlargest 10 (groupby_mean Job_Title Salary_In_Usd vis)))"
    using assms by (simp add: top_job_titles_def)
  have 2: "top_selection 10 (groupby_mean cargo (salario m) df_f) (top_cargos e)"
    if "main_courts df_f m c1 c2 = Rendered e" for e
  proof -
    from that have "top_cargos e = sort_values (nlargest 10 (groupby_mean cargo (salario m) df_f))"
      by (auto simp: main_courts_def Let_def split: if_splits sum.splits)
    then show ?thesis by (simp only: top_selection_groupby)
  qed
  show ?thesis
    using 1 2 top_selection_groupby [of 10 Job_Title Salary_In_Usd vis]
      set_groupby_mean [of Job_Title Salary_In_Usd vis]
      sorted_distinct_groupby_mean(1) [of Job_Title Salary_In_Usd vis]
    by blast
qed

text \<open>
  Claim C2 as stated fails: with eleven titles of which \<open>k\<close> and \<open>a\<close> tie for the last
  place, \<open>k\<close> is met first in the table and is all the same the one left out.
\<close>

theorem top_ten_encounter_order_counterexample:
  "map Job_Title (take 2 eleven_titles) = [''k'', ''a'']
   \<and> df_vis eleven_titles = Inr eleven_titles
   \<and> groupby_mean Job_Title Salary_In_Usd eleven_titles
       = [(''a'', 1), (''b'', 2), (''c'', 2), (''d'', 2), (''e'', 2), (''f'', 2), (''g'', 2),
          (''h'', 2), (''i'', 2), (''j'', 2), (''k'', 1)]
   \<and> nlargest 10 (groupby_mean Job_Title Salary_In_Usd eleven_titles)
       = [(''b'', 2), (''c'', 2), (''d'', 2), (''e'', 2), (''f'', 2), (''g'', 2), (''h'', 2),
          (''i'', 2), (''j'', 2), (''a'', 1)]
   \<and> map_option set (top_job_titles eleven_titles)
       = Some {(''a'', 1), (''b'', 2), (''c'', 2), (''d'', 2), (''e'', 2), (''f'', 2),
               (''g'', 2), (''h'', 2), (''i'', 2), (''j'', 2)}"
proof -
  have 1: "map Job_Title (take 2 eleven_titles) = [''k'', ''a'']"
    by (simp add: eleven_titles_def example_row_def)
  have 2: "df_vis eleven_titles = Inr eleven_titles" by code_simp
  have 3: "groupby_mean Job_Title Salary_In_Usd eleven_titles
       = [(''a'', 1), (''b'', 2), (''c'', 2), (''d'', 2), (''e'', 2), (''f'', 2), (''g'', 2),
          (''h'', 2), (''i'', 2), (''j'', 2), (''k'', 1)]" by code_simp
  have 4: "nlargest 10 (groupby_mean Job_Title Salary_In_Usd eleven_titles)
       = [(''b'', 2), (''c'', 2), (''d'', 2), (''e'', 2), (''f'', 2), (''g'', 2), (''h'', 2),
          (''i'', 2), (''j'', 2), (''a'', 1)]" by code_simp
  have "top_job_titles eleven_titles
       = Some [(''a'', 1), (''b'', 2), (''c'', 2), (''d'', 2), (''e'', 2), (''f'', 2),
               (''g'', 2), (''h'', 2), (''i'', 2), (''j'', 2)]" by code_simp
  then have 5: "map_option set (top_job_titles eleven_titles)
       = Some {(''a'', 1), (''b'', 2), (''c'', 2), (''d'', 2), (''e'', 2), (''f'', 2),
               (''g'', 2), (''h'', 2), (''i'', 2), (''j'', 2)}" by simp
  from 1 2 3 4 5 show ?thesis by (intro conjI)
qed

theorem top_ten_selection_witness:
  "[example_row 2021 ''A'' 100, example_row 2021 ''A'' 300, example_row 2021 ''B'' 250] \<noteq> []
   \<and> top_job_titles [example_row 2021 ''A'' 100, example_row 2021 ''A'' 300,
        example_row 2021 ''B'' 250] = Some [(''A'', 200), (''B'', 250)]
   \<and> top_selection 10
        (groupby_mean Job_Title Salary_In_Usd
           [example_row 2021 ''A'' 100, example_row 2021 ''A'' 300, example_row 2021 ''B'' 250])
        [(''A'', 200), (''B'', 250)]
   \<and> top_selection 10
        (groupby_mean cargo (salario USD)
           [example_registro 2021 ''a'' 100, example_registro 2022 ''b'' 300])
        [(''a'', 100), (''b'', 300)]"
proof -
  let ?T = "[example_row 2021 ''A'' 100, example_row 2021 ''A'' 300, example_row 2021 ''B'' 250]"
  let ?R = "[example_registro 2021 ''a'' 100, example_registro 2022 ''b'' 300]"
  let ?e = "\<lparr>salario_medio = Fin 200, salario_mediano = Fin 200, maximo = Fin 300,
     registros = 2, evolucao = [(2021, 100), (2022, 300)],
     top_cargos = [(''a'', 100), (''b'', 300)],
     heat = [((''senior'', ''media''), 200)],
     comp_cargos = [(''a'', 100, 100), (''b'', 300, 300)],
     delta_pct = Fin 200, ranking = [(''BRA'', 200)]\<rparr>"
  have ne: "?T \<noteq> []" by simp
  have t: "top_job_titles ?T = Some [(''A'', 200), (''B'', 250)]" by code_simp
  have e: "main_courts ?R USD ''a'' ''b'' = Rendered ?e" by code_simp
  note inst = top_ten_selection [OF ne, of ?R USD "''a''" "''b''"]
  from inst obtain sel where "top_job_titles ?T = Some sel"
      "top_selection 10 (groupby_mean Job_Title Salary_In_Usd ?T) sel" by blast
  with t have s1: "top_selection 10 (groupby_mean Job_Title Salary_In_Usd ?T)
      [(''A'', 200), (''B'', 250)]" by simp
  from inst e have "top_selection 10 (groupby_mean cargo (salario USD) ?R) (top_cargos ?e)"
    by blast
  then have s2: "top_selection 10 (groupby_mean cargo (salario USD) ?R)
      [(''a'', 100), (''b'', 300)]" by simp
  from ne t s1 s2 show ?thesis by (intro conjI)
qed

section \<open>The relative difference of two groups\<close>

lemma getitem_mask_isin:
  "getitem_mask df (isin (map key df) vals) = filter (\<lambda>r. key r \<in> set vals) df"
  by (simp only: isin_map getitem_mask_map)

lemma filter_key_map:
  assumes "distinct ks" "a \<in> set ks"
  shows "filter (\<lambda>x. fst x = a) (map (\<lambda>k. (k, h k)) ks) = [(a, h a)]"
  using assms
proof (induction ks)
  case Nil
  then show ?case by simp
next
  case (Cons k ks)
  show ?case
  proof (cases "k = a")
    case True
    with Cons.prems have "a \<notin> set ks" by simp
    then have "filter (\<lambda>x. fst x = a) (map (\<lambda>k. (k, h k)) ks) = []"
      by (auto simp: filter_empty_conv)
    with True show ?thesis by simp
  next
    case False
    with Cons show ?thesis by simp
  qed
qed

lemma key_is: "(\<lambda>(k, mn, md). k = a) = (\<lambda>x. fst x = a)"
  by auto

lemma groupby_agg_lookup:
  assumes "a \<in> key ` set df"
  shows "filter (\<lambda>(k, mn, md). k = a) (groupby_agg key val df)
           = [(a, group_mean key val df a, med (map val (filter (\<lambda>r. key r = a) df)))]"
proof -
  have "distinct (sort (remdups (map key df)))" "a \<in> set (sort (remdups (map key df)))"
    using assms by simp_all
  from filter_key_map [OF this,
      of "\<lambda>k. (avg (map val (filter (\<lambda>r. key r = k) df)), med (map val (filter (\<lambda>r. key r = k) df)))"]
  show ?thesis
    by (simp add: groupby_agg_def group_mean_def Let_def key_is)
qed

lemma group_mean_restrict:
  assumes "a \<in> set vals"
  shows "group_mean key val (filter (\<lambda>r. key r \<in> set vals) df) a = group_mean key val df a"
proof -
  have "filter (\<lambda>r. key r = a) (filter (\<lambda>r. key r \<in> set vals) df) = filter (\<lambda>r. key r = a) df"
    using assms by (auto intro: filter_cong)
  then show ?thesis by (simp add: group_mean_def)
qed

lemma diff_value:
  assumes a: "role_a \<in> set (roles df)" and b: "role_b \<in> set (roles df)" and ne: "role_a \<noteq> role_b"
  shows "diff df role_a role_b =
     Inr (Some (times100 (fdiv (group_mean cargo usd df role_a - group_mean cargo usd df role_b)
                               (group_mean cargo usd df role_b))))"
proof -
  define F where "F = filter (\<lambda>r. cargo r \<in> set [role_a, role_b]) df"
  have Fa: "role_a \<in> cargo ` set F" and Fb: "role_b \<in> cargo ` set F"
    using a b by (auto simp: F_def roles_def)
  have ga: "group_mean cargo usd F role_a = group_mean cargo usd df role_a"
    unfolding F_def by (rule group_mean_restrict) simp
  have gb: "group_mean cargo usd F role_b = group_mean cargo usd df role_b"
    unfolding F_def by (rule group_mean_restrict) simp
  have la: "iloc0 (map (\<lambda>(k, mn, md). mn) (filter (\<lambda>(k, mn, md). k = role_a) (groupby_agg cargo usd F)))
      = Inr (group_mean cargo usd df role_a)"
    unfolding groupby_agg_lookup [OF Fa] by (simp add: iloc0_def ga)
  have lb: "iloc0 (map (\<lambda>(k, mn, md). mn) (filter (\<lambda>(k, mn, md). k = role_b) (groupby_agg cargo usd F)))
      = Inr (group_mean cargo usd df role_b)"
    unfolding groupby_agg_lookup [OF Fb] by (simp add: iloc0_def gb)
  show ?thesis
    unfolding diff_def getitem_mask_isin F_def [symmetric] Let_def la lb using ne by simp
qed

lemma times100_fdiv_nonzero:
  "mb \<noteq> 0 \<Longrightarrow> times100 (fdiv (ma - mb) mb) = Fin ((ma / mb - 1) * 100)"
  by (simp add: fdiv_def diff_divide_distrib)

lemma times100_fdiv_zero:
  "times100 (fdiv ma 0) = PInf \<or> times100 (fdiv ma 0) = NInf \<or> times100 (fdiv ma 0) = NaN"
  by (simp add: fdiv_def)

text \<open>
  Claim C6, amended. For every table and any two distinct roles A and B of the table,
  the relative difference of \<^verbatim>\<open>pages/3_Role_Comparison.py\<close>, which looks both means up
  by role name, is \<open>(meanA / meanB - 1) * 100\<close> when \<open>meanB\<close> is not zero. When \<open>meanB\<close>
  is zero nothing is flagged: the float division is carried out and its result, an
  infinity or NaN, is the value passed on to the display. No exception is raised in
  either case. For one and the same role in both boxes no difference is computed.
\<close>

theorem relative_difference:
  "diff df role role = Inr None
   \<and> (role_a \<in> set (roles df) \<and> role_b \<in> set (roles df) \<and> role_a \<noteq> role_b \<longrightarrow>
        (\<exists>v. diff df role_a role_b = Inr (Some v)
           \<and> (group_mean cargo usd df role_b \<noteq> 0 \<longrightarrow>
                v = Fin ((group_mean cargo usd df role_a / group_mean cargo usd df role_b - 1) * 100))
           \<and> (group_mean cargo usd df role_b = 0 \<longrightarrow> v = PInf \<or> v = NInf \<or> v = NaN)))"
proof -
  have same: "diff df role role = Inr None" by (simp add: diff_def)
  have "\<exists>v. diff df role_a role_b = Inr (Some v)
           \<and> (group_mean cargo usd df role_b \<noteq> 0 \<longrightarrow>
                v = Fin ((group_mean cargo usd df role_a / group_mean cargo usd df role_b - 1) * 100))
           \<and> (group_mean cargo usd df role_b = 0 \<longrightarrow> v = PInf \<or> v = NInf \<or> v = NaN)"
    if h: "role_a \<in> set (roles df)" "role_b \<in> set (roles df)" "role_a \<noteq> role_b"
  proof (cases "group_mean cargo usd df role_b = 0")
    case True
    show ?thesis
      unfolding diff_value [OF h] True
      using times100_fdiv_zero [of "group_mean cargo usd df role_a"] by simp
  next
    case False
    show ?thesis
      unfolding diff_value [OF h] times100_fdiv_nonzero [OF False] using False by simp
  qed
  with same show ?thesis by blast
qed

theorem relative_difference_witness:
  "''a'' \<in> set (roles [example_registro 2021 ''a'' 150, example_registro 2022 ''b'' 100])
   \<and> ''b'' \<in> set (roles [example_registro 2021 ''a'' 150, example_registro 2022 ''b'' 100])
   \<and> ''a'' \<noteq> ''b''
   \<and> group_mean cargo usd [example_registro 2021 ''a'' 150, example_registro 2022 ''b'' 100] ''a'' = 150
   \<and> group_mean cargo usd [example_registro 2021 ''a'' 150, example_registro 2022 ''b'' 100] ''b'' = 100
   \<and> diff [example_registro 2021 ''a'' 150, example_registro 2022 ''b'' 100] ''a'' ''b''
       = Inr (Some (Fin 50))"
proof -
  let ?R = "[example_registro 2021 ''a'' 150, example_registro 2022 ''b'' 100]"
  have a: "''a'' \<in> set (roles ?R)" by code_simp
  have b: "''b'' \<in> set (roles ?R)" by code_simp
  have ne: "''a'' \<noteq> ''b''" by simp
  have ga: "group_mean cargo usd ?R ''a'' = 150" by code_simp
  have gb: "group_mean cargo usd ?R ''b'' = 100" by code_simp
  from relative_difference [of ?R "''a''" "''a''" "''b''"] a b ne
  obtain v where v: "diff ?R ''a'' ''b'' = Inr (Some v)"
      "group_mean cargo usd ?R ''b'' \<noteq> 0 \<longrightarrow>
         v = Fin ((group_mean cargo usd ?R ''a'' / group_mean cargo usd ?R ''b'' - 1) * 100)"
    by blast
  from v(2) have "v = Fin 50" unfolding ga gb by simp
  with v(1) have d: "diff ?R ''a'' ''b'' = Inr (Some (Fin 50))" by simp
  from a b ne ga gb d show ?thesis by (intro conjI)
qed

text \<open>
  Claim C6 as stated fails: with a base mean of zero both pages compute infinity and
  render it, neither has an undefined result; and for twice the same role
  \<^verbatim>\<open>pages/3_Role_Comparison.py\<close> returns no percentage.
\<close>

theorem zero_base_mean_counterexample:
  "group_mean cargo usd [example_registro 2021 ''a'' 150, example_registro 2022 ''b'' 0] ''b'' = 0
   \<and> diff [example_registro 2021 ''a'' 150, example_registro 2022 ''b'' 0] ''a'' ''b''
       = Inr (Some PInf)
   \<and> diff [example_registro 2021 ''a'' 150, example_registro 2022 ''b'' 100] ''a'' ''a''
       = Inr None
   \<and> main_courts [example_registro 2021 ''a'' 0, example_registro 2022 ''b'' 300] EUR ''a'' ''b''
       = Rendered
           \<lparr>salario_medio = Fin 138, salario_mediano = Fin 138, maximo = Fin 276,
            registros = 2, evolucao = [(2021, 0), (2022, 276)],
            top_cargos = [(''a'', 0), (''b'', 276)],
            heat = [((''senior'', ''media''), 138)],
            comp_cargos = [(''a'', 0, 0), (''b'', 276, 276)], delta_pct = PInf,
            ranking = [(''BRA'', 138)]\<rparr>"
proof -
  have 1: "group_mean cargo usd [example_registro 2021 ''a'' 150, example_registro 2022 ''b'' 0] ''b'' = 0"
    by code_simp
  have 2: "diff [example_registro 2021 ''a'' 150, example_registro 2022 ''b'' 0] ''a'' ''b''
       = Inr (Some PInf)" by code_simp
  have 3: "diff [example_registro 2021 ''a'' 150, example_registro 2022 ''b'' 100] ''a'' ''a''
       = Inr None" by code_simp
  have 4: "main_courts [example_registro 2021 ''a'' 0, example_registro 2022 ''b'' 300] EUR ''a'' ''b''
       = Rendered
           \<lparr>salario_medio = Fin 138, salario_mediano = Fin 138, maximo = Fin 276,
            registros = 2, evolucao = [(2021, 0), (2022, 276)],
            top_cargos = [(''a'', 0), (''b'', 276)],
            heat = [((''senior'', ''media''), 138)],
            comp_cargos = [(''a'', 0, 0), (''b'', 276, 276)], delta_pct = PInf,
            ranking = [(''BRA'', 138)]\<rparr>" by code_simp
  from 1 2 3 4 show ?thesis by (intro conjI)
qed

text \<open>
  \<^verbatim>\<open>pages/0_Main_Courts.py\<close> reads the two means by their position in the table sorted
  by job title, not by name. With titles \<open>b\<close> and \<open>a\<close> chosen in that order it computes
  what \<open>b\<close> earns over \<open>a\<close> (200 percent) and reports it as what \<open>a\<close> earns over \<open>b\<close>;
  with twice the same title, or a title that the filter removed, reading the second row
  raises KeyError.
\<close>

lemma main_courts_delta_by_position:
  "main_courts [example_registro 2021 ''a'' 100, example_registro 2022 ''b'' 300] USD ''b'' ''a''
     = Rendered
         \<lparr>salario_medio = Fin 200, salario_mediano = Fin 200, maximo = Fin 300,
          registros = 2, evolucao = [(2021, 100), (2022, 300)],
          top_cargos = [(''a'', 100), (''b'', 300)],
          heat = [((''senior'', ''media''), 200)],
          comp_cargos = [(''a'', 100, 100), (''b'', 300, 300)],
          delta_pct = Fin 200, ranking = [(''BRA'', 200)]\<rparr>"
  "main_courts [example_registro 2021 ''a'' 100, example_registro 2022 ''b'' 300] USD ''b'' ''b''
     = Raised KeyError"
  "main_courts [example_registro 2021 ''a'' 100, example_registro 2022 ''b'' 300] USD ''a'' ''c''
     = Raised KeyError"
  by code_simp+

section \<open>Validation of the loaded file\<close>

lemma validation_halts:
  "\<not> set REQUIRED_COLUMNS \<subseteq> set (columns df) \<Longrightarrow>
     home_validated df rest = Stopped ''The dataset does not contain all the necessary columns.''"
  "\<not> set COLUNAS \<subseteq> set (columns df) \<Longrightarrow>
     main_courts_validated df rest = Stopped ''Dataset invalido ou incompleto.''"
  by (simp_all add: home_validated_def main_courts_validated_def)

text \<open>
  Claim C8. A file whose only column is \<open>usd\<close> misses seven of the eight required
  columns. \<^verbatim>\<open>pages/0_Main_Courts.py\<close> stops on it with the validation error, before the
  rest of the script; \<^verbatim>\<open>pages/1_Overview.py\<close> has no validation and computes and
  renders its metrics from it. On a file without \<open>usd\<close> the same page ends in an
  uncaught KeyError, not in a validation error.
\<close>

theorem overview_not_validated:
  "\<not> set COLUNAS \<subseteq> set (columns [(''usd'', [Num 100, Num 300])])
   \<and> main_courts_validated [(''usd'', [Num 100, Num 300])] rest
       = Stopped ''Dataset invalido ou incompleto.''
   \<and> overview [(''usd'', [Num 100, Num 300])]
       = Rendered \<lparr>ov_average_salary = Fin 200, ov_median_salary = Fin 200,
                   ov_total_records = 2\<rparr>
   \<and> overview [(''ano'', [Num 2021, Num 2022])] = Raised KeyError"
proof -
  have 1: "\<not> set COLUNAS \<subseteq> set (columns [(''usd'', [Num 100, Num 300])])"
    by (simp add: COLUNAS_def columns_def)
  have 2: "main_courts_validated [(''usd'', [Num 100, Num 300])] rest
       = Stopped ''Dataset invalido ou incompleto.''"
    using 1 by (rule validation_halts)
  have 3: "overview [(''usd'', [Num 100, Num 300])]
       = Rendered \<lparr>ov_average_salary = Fin 200, ov_median_salary = Fin 200,
                   ov_total_records = 2\<rparr>" by code_simp
  have 4: "overview [(''ano'', [Num 2021, Num 2022])] = Raised KeyError" by code_simp
  from 1 2 3 4 show ?thesis by (intro conjI)
qed

end
